theory Spec2Isabelle
  imports Complex_Main
begin

section \<open>Quantized MobileNetV2 building blocks\<close>

text \<open>
  A shallow embedding of the notebook \<^verbatim>\<open>mobilenetv2-quantized/Untitled.ipynb\<close>.
  The notebook builds layer objects from two external libraries (the quantized layers
  \<^verbatim>\<open>QuantConv2d\<close> and \<^verbatim>\<open>QuantReLU\<close>, and the plain \<^verbatim>\<open>BatchNorm2d\<close> and
  \<^verbatim>\<open>Sequential\<close>). A layer object is modelled by the record of the keyword arguments it
  was built from; what a layer computes on a tensor is a parameter of the forward
  functions. Python exceptions are values of the type \<open>error\<close>, and a constructor
  returns \<open>error + object\<close>.
\<close>

subsection \<open>Constants and errors\<close>

definition FIRST_LAYER_BIT_WIDTH :: int where
  "FIRST_LAYER_BIT_WIDTH = 8"

definition LAST_LAYER_BIT_WIDTH :: int where
  "LAST_LAYER_BIT_WIDTH = 8"

definition INTERNAL_BIT_WIDTH :: int where
  "INTERNAL_BIT_WIDTH = 4"

datatype error =
    AssertionError
  | ConfigurationError
  | OverflowError
  | ValueError
  | AttributeError string string
  | NameError string

text \<open>
  The float literals of the notebook, as the rational numbers their decimal notation
  denotes: \<^verbatim>\<open>2e-16\<close> and \<^verbatim>\<open>1e-5\<close>.
\<close>

definition lit_2e_16 :: rat where
  "lit_2e_16 = 2 / 10 ^ 16"

definition lit_1e_5 :: rat where
  "lit_1e_5 = 1 / 10 ^ 5"

subsection \<open>Quantization policies: the four quantizer classes\<close>

datatype RestrictValueType = LOG_FP

datatype ScalingImplType = STATS | PARAMETER

datatype QuantType = QuantType_INT

datatype quant_class =
    Int8WeightPerTensorFloat
  | Int8ActPerTensorFloat
  | Uint8ActPerTensorFloat
  | CommonIntWeightPerTensorQuant
  | CommonIntWeightPerChannelQuant
  | CommonIntActQuant
  | CommonUintActQuant

datatype attr_value =
    PyNone
  | PyBool bool
  | PyInt int
  | PyFloat rat
  | PyRestrict RestrictValueType

text \<open>
  The base class named in each class statement. The three imported library classes are
  the roots of the model: what they inherit from is not part of the notebook.
\<close>

fun class_base :: "quant_class \<Rightarrow> quant_class option" where
  "class_base CommonIntWeightPerTensorQuant = Some Int8WeightPerTensorFloat"
| "class_base CommonIntWeightPerChannelQuant = Some CommonIntWeightPerTensorQuant"
| "class_base CommonIntActQuant = Some Int8ActPerTensorFloat"
| "class_base CommonUintActQuant = Some Uint8ActPerTensorFloat"
| "class_base _ = None"

text \<open>
  The attributes bound in each class body, in source order. The bodies of the library
  classes are the parameter \<open>lib\<close>.
\<close>

fun class_body :: "(quant_class \<Rightarrow> (string \<times> attr_value) list) \<Rightarrow> quant_class
    \<Rightarrow> (string \<times> attr_value) list" where
  "class_body lib CommonIntWeightPerTensorQuant =
     [(''scaling_min_val'', PyFloat lit_2e_16), (''bit_width'', PyNone)]"
| "class_body lib CommonIntWeightPerChannelQuant =
     [(''scaling_per_output_channel'', PyBool True)]"
| "class_body lib CommonIntActQuant =
     [(''scaling_min_val'', PyFloat lit_2e_16), (''bit_width'', PyNone),
      (''restrict_scaling_type'', PyRestrict LOG_FP)]"
| "class_body lib CommonUintActQuant =
     [(''scaling_min_val'', PyFloat lit_2e_16), (''bit_width'', PyNone),
      (''restrict_scaling_type'', PyRestrict LOG_FP)]"
| "class_body lib c = lib c"

fun class_rank :: "quant_class \<Rightarrow> nat" where
  "class_rank CommonIntWeightPerChannelQuant = 2"
| "class_rank CommonIntWeightPerTensorQuant = 1"
| "class_rank CommonIntActQuant = 1"
| "class_rank CommonUintActQuant = 1"
| "class_rank _ = 0"

text \<open>
  Attribute lookup on a class: the class body first, then the base class. The result
  \<open>None\<close> is Python's AttributeError; \<open>Some PyNone\<close> is an attribute bound to
  \<^verbatim>\<open>None\<close>.
\<close>

function class_getattr :: "(quant_class \<Rightarrow> (string \<times> attr_value) list) \<Rightarrow> quant_class
    \<Rightarrow> string \<Rightarrow> attr_value option" where
  "class_getattr lib c a =
     (case map_of (class_body lib c) a of
        Some v \<Rightarrow> Some v
      | None \<Rightarrow> (case class_base c of
                   None \<Rightarrow> None
                 | Some b \<Rightarrow> class_getattr lib b a))"
  by pat_completeness auto
termination
proof (relation "measure (\<lambda>(lib, c, a). class_rank c)")
  show "wf (measure (\<lambda>(lib, c, a). class_rank c))"
    by simp
next
  fix lib :: "quant_class \<Rightarrow> (string \<times> attr_value) list" and c a b
  assume "class_base c = Some b"
  then have "class_rank b < class_rank c"
    by (cases c) auto
  then show "((lib, b, a), (lib, c, a)) \<in> measure (\<lambda>(lib, c, a). class_rank c)"
    by simp
qed

definition named_policies :: "quant_class list" where
  "named_policies = [CommonIntWeightPerTensorQuant, CommonIntWeightPerChannelQuant,
     CommonIntActQuant, CommonUintActQuant]"

subsection \<open>Layer objects of the libraries\<close>

record QuantConv2d =
  in_channels :: int
  out_channels :: int
  kernel_size :: int
  stride :: int
  padding :: int
  groups :: int
  bias :: bool
  weight_bit_width :: "int option"
  weight_quant :: quant_class
  weight_scaling_per_output_channel :: bool
  weight_scaling_impl_type :: ScalingImplType
  weight_scaling_stats_op :: string
  weight_narrow_range :: bool
  weight_scaling_min_val :: rat

record BatchNorm2d =
  num_features :: int
  eps :: "rat option"

record QuantReLU =
  bit_width :: "int option"
  max_val :: int
  quant_type :: QuantType
  scaling_impl_type :: ScalingImplType
  restrict_scaling_type :: RestrictValueType
  scaling_per_channel :: bool
  per_channel_broadcastable_shape :: "int \<times> int \<times> int \<times> int"
  return_quant_tensor :: bool

text \<open>
  Modelled from the spec: the constructor of the library's quantized convolution, which
  is not part of the notebook. The spec's error conditions for a quantized convolution
  are an unresolved bit width and a non-positive kernel size or output channel count,
  all raised at construction. The object built is the record of its arguments.
\<close>

definition QuantConv2d_new :: "QuantConv2d \<Rightarrow> error + QuantConv2d" where
  "QuantConv2d_new kw =
     (if weight_bit_width kw = None then Inl ConfigurationError
      else if kernel_size kw \<le> 0 \<or> out_channels kw \<le> 0 then Inl ConfigurationError
      else Inr kw)"

text \<open>
  Modelled from the spec: the constructor of the library's quantized activation, which
  is not part of the notebook. An unresolved bit width is a configuration error.
\<close>

definition QuantReLU_new :: "QuantReLU \<Rightarrow> error + QuantReLU" where
  "QuantReLU_new kw =
     (if bit_width kw = None then Inl ConfigurationError else Inr kw)"

subsection \<open>ConvBlock\<close>

record ConvBlock =
  conv :: QuantConv2d
  bn :: BatchNorm2d
  activation :: QuantReLU

text \<open>The optional arguments of \<^verbatim>\<open>ConvBlock.__init__\<close> and their defaults.\<close>

record ConvBlock_opts =
  opt_stride :: int
  opt_padding :: "int option"
  opt_groups :: int
  opt_bn_eps :: rat
  opt_activation_scaling_per_channel :: bool
  opt_bias :: bool

definition ConvBlock_defaults :: ConvBlock_opts where
  "ConvBlock_defaults = \<lparr>opt_stride = 1, opt_padding = None, opt_groups = 1,
     opt_bn_eps = lit_1e_5, opt_activation_scaling_per_channel = False,
     opt_bias = False\<rparr>"

definition ConvBlock_init :: "int \<Rightarrow> int \<Rightarrow> int \<Rightarrow> int option \<Rightarrow> int option
    \<Rightarrow> ConvBlock_opts \<Rightarrow> error + ConvBlock" where
  "ConvBlock_init in_channels' out_channels' kernel_size' weight_bit_width' act_bit_width' opts =
     (let padding' = (case opt_padding opts of
                        None \<Rightarrow> (kernel_size' - 1) div 2
                      | Some p \<Rightarrow> p)
      in case QuantConv2d_new \<lparr>
             in_channels = in_channels',
             out_channels = out_channels',
             kernel_size = kernel_size',
             stride = opt_stride opts,
             padding = padding',
             groups = opt_groups opts,
             bias = opt_bias opts,
             weight_bit_width = weight_bit_width',
             weight_quant = CommonIntWeightPerChannelQuant,
             weight_scaling_per_output_channel = True,
             weight_scaling_impl_type = STATS,
             weight_scaling_stats_op = ''abs_max'',
             weight_narrow_range = True,
             weight_scaling_min_val = lit_2e_16\<rparr> of
           Inl e \<Rightarrow> Inl e
         | Inr self_conv \<Rightarrow>
             (let self_bn = \<lparr>num_features = out_channels', eps = Some (opt_bn_eps opts)\<rparr>
              in case QuantReLU_new \<lparr>
                     bit_width = act_bit_width',
                     max_val = 6,
                     quant_type = QuantType_INT,
                     scaling_impl_type = PARAMETER,
                     restrict_scaling_type = LOG_FP,
                     scaling_per_channel = opt_activation_scaling_per_channel opts,
                     per_channel_broadcastable_shape = (1, out_channels', 1, 1),
                     return_quant_tensor = True\<rparr> of
                   Inl e \<Rightarrow> Inl e
                 | Inr self_activation \<Rightarrow>
                     Inr \<lparr>conv = self_conv, bn = self_bn, activation = self_activation\<rparr>))"

text \<open>
  What each library layer computes on a tensor is outside the notebook: the four
  operations are the fields of \<open>prims\<close>, over an arbitrary type \<open>'v\<close> of tensor values.
\<close>

record 'v prims =
  quant_conv2d :: "QuantConv2d \<Rightarrow> 'v \<Rightarrow> 'v"
  batch_norm2d :: "BatchNorm2d \<Rightarrow> 'v \<Rightarrow> 'v"
  quant_relu :: "QuantReLU \<Rightarrow> 'v \<Rightarrow> 'v"
  tensor_add :: "'v \<Rightarrow> 'v \<Rightarrow> 'v"

definition ConvBlock_forward :: "'v prims \<Rightarrow> ConvBlock \<Rightarrow> 'v \<Rightarrow> 'v" where
  "ConvBlock_forward P self x0 =
     (let x1 = quant_conv2d P (conv self) x0;
          x2 = batch_norm2d P (bn self) x1;
          x3 = quant_relu P (activation self) x2
      in x3)"

text \<open>
  Modelled from the spec: the spatial output size of the library's convolution, the
  ``standard convolution arithmetic'' for an input of spatial size \<open>n\<close> (dilation 1):
  the padded input minus the kernel, floor-divided by the stride, plus one.
\<close>

definition conv_output_size :: "QuantConv2d \<Rightarrow> int \<Rightarrow> int" where
  "conv_output_size c n = (n + 2 * padding c - kernel_size c) div stride c + 1"

subsection \<open>InvertedResidual\<close>

datatype layer =
    ConvBlockL ConvBlock
  | QuantConv2dL QuantConv2d
  | BatchNorm2dL BatchNorm2d

record InvertedResidual =
  ir_stride :: int
  use_res_connect :: bool
  ir_conv :: "layer list"

subsubsection \<open>Python numbers: \<^verbatim>\<open>int(round(inp * expand_ratio))\<close>\<close>

text \<open>
  The argument \<^verbatim>\<open>expand_ratio\<close> is a Python number: an integer, or a float. A finite
  float is the rational number it denotes exactly; the other floats are the two
  infinities and NaN.
\<close>

datatype pyfloat = Finite rat | PosInf | NegInf | NaN

datatype number = IntNum int | FloatNum pyfloat

text \<open>
  Python's \<^verbatim>\<open>round\<close> of a float: the nearest integer, a tie going to the even
  neighbour.
\<close>

definition py_round :: "rat \<Rightarrow> int" where
  "py_round x =
     (let f = \<lfloor>x\<rfloor>; d = x - of_int f
      in if d < 1 / 2 then f
         else if 1 / 2 < d then f + 1
         else if even f then f else f + 1)"

text \<open>The number of binary digits of a positive integer.\<close>

function bit_length :: "int \<Rightarrow> int" where
  "bit_length n = (if n \<le> 0 then 0 else 1 + bit_length (n div 2))"
  by pat_completeness auto
termination
proof (relation "measure nat")
  show "wf (measure nat)"
    by simp
next
  fix n :: int
  assume "\<not> n \<le> 0"
  then have "n div 2 < n"
    by linarith
  with \<open>\<not> n \<le> 0\<close> show "(n div 2, n) \<in> measure nat"
    by simp
qed

declare bit_length.simps [simp del]

definition pow2 :: "int \<Rightarrow> rat" where
  "pow2 e = (if 0 \<le> e then 2 ^ nat e else 1 / 2 ^ nat (- e))"

text \<open>For a positive rational \<open>a\<close>, the exponent \<open>e\<close> with \<open>2\<^sup>e \<le> a < 2\<^sup>e\<^sup>+\<^sup>1\<close>.\<close>

definition ilog2 :: "rat \<Rightarrow> int" where
  "ilog2 a = (if 1 \<le> a then bit_length \<lfloor>a\<rfloor> - 1 else - bit_length (- \<lfloor>- (1 / a)\<rfloor> - 1))"

text \<open>
  The result of a float operation whose exact value is \<open>q\<close>: the nearest double (binary
  format of 64 bits: 53 significant bits, least normal exponent \<open>-1022\<close>, gradual
  underflow), a tie going to the even significand, and an infinity from \<open>2\<^sup>1\<^sup>0\<^sup>2\<^sup>4\<close> on.
\<close>

definition round_to_double :: "rat \<Rightarrow> pyfloat" where
  "round_to_double q =
     (if q = 0 then Finite 0
      else
        let a = \<bar>q\<bar>;
            e = max (ilog2 a) (- 1022);
            ulp = pow2 (e - 52);
            r = of_int (py_round (a / ulp)) * ulp
        in if pow2 1024 \<le> r then (if 0 < q then PosInf else NegInf)
           else Finite (if 0 < q then r else - r))"

fun float_mul :: "pyfloat \<Rightarrow> pyfloat \<Rightarrow> pyfloat" where
  "float_mul (Finite a) (Finite b) = round_to_double (a * b)"
| "float_mul (Finite a) PosInf = (if a = 0 then NaN else if 0 < a then PosInf else NegInf)"
| "float_mul (Finite a) NegInf = (if a = 0 then NaN else if 0 < a then NegInf else PosInf)"
| "float_mul PosInf (Finite b) = (if b = 0 then NaN else if 0 < b then PosInf else NegInf)"
| "float_mul NegInf (Finite b) = (if b = 0 then NaN else if 0 < b then NegInf else PosInf)"
| "float_mul PosInf PosInf = PosInf"
| "float_mul PosInf NegInf = NegInf"
| "float_mul NegInf PosInf = NegInf"
| "float_mul NegInf NegInf = PosInf"
| "float_mul _ _ = NaN"

text \<open>
  \<^verbatim>\<open>inp * expand_ratio\<close> for an integer \<^verbatim>\<open>inp\<close>: the exact product with an integer;
  with a float, \<^verbatim>\<open>inp\<close> is converted to a float first (an integer too large for a
  float raises OverflowError) and the product is the float product.
\<close>

fun int_mul :: "int \<Rightarrow> number \<Rightarrow> error + number" where
  "int_mul i (IntNum n) = Inr (IntNum (i * n))"
| "int_mul i (FloatNum f) =
     (case round_to_double (of_int i) of
        Finite a \<Rightarrow> Inr (FloatNum (float_mul (Finite a) f))
      | _ \<Rightarrow> Inl OverflowError)"

text \<open>
  \<^verbatim>\<open>int(round(x))\<close>: an integer is its own rounding; NaN raises ValueError and an
  infinity raises OverflowError.
\<close>

fun int_round :: "number \<Rightarrow> error + int" where
  "int_round (IntNum n) = Inr n"
| "int_round (FloatNum (Finite q)) = Inr (py_round q)"
| "int_round (FloatNum NaN) = Inl ValueError"
| "int_round (FloatNum _) = Inl OverflowError"

text \<open>\<^verbatim>\<open>expand_ratio != 1\<close>: an integer and a float are compared by value.\<close>

fun ne_one :: "number \<Rightarrow> bool" where
  "ne_one (IntNum n) = (n \<noteq> 1)"
| "ne_one (FloatNum (Finite q)) = (q \<noteq> 1)"
| "ne_one (FloatNum _) = True"

subsubsection \<open>The constructor and the forward evaluation\<close>

definition InvertedResidual_init :: "int \<Rightarrow> int \<Rightarrow> int \<Rightarrow> number
    \<Rightarrow> error + InvertedResidual" where
  "InvertedResidual_init inp oup stride' expand_ratio =
     (if stride' \<notin> set [1, 2] then Inl AssertionError
      else case int_mul inp expand_ratio of
        Inl e \<Rightarrow> Inl e
      | Inr product \<Rightarrow>
      (case int_round product of
        Inl e \<Rightarrow> Inl e
      | Inr hidden_dim \<Rightarrow>
        (let self_use_res_connect = (stride' = 1 \<and> inp = oup)
         in case (if ne_one expand_ratio
                  then (case ConvBlock_init inp hidden_dim 1 (Some INTERNAL_BIT_WIDTH)
                               (Some INTERNAL_BIT_WIDTH) ConvBlock_defaults of
                          Inl e \<Rightarrow> Inl e
                        | Inr expansion \<Rightarrow> Inr [ConvBlockL expansion])
                  else Inr []) of
              Inl e \<Rightarrow> Inl e
            | Inr layers \<Rightarrow>
                (case ConvBlock_init hidden_dim hidden_dim 3 (Some INTERNAL_BIT_WIDTH)
                        (Some INTERNAL_BIT_WIDTH)
                        (ConvBlock_defaults\<lparr>opt_stride := stride',
                           opt_groups := hidden_dim\<rparr>) of
                   Inl e \<Rightarrow> Inl e
                 | Inr depthwise \<Rightarrow>
                     (case QuantConv2d_new \<lparr>
                             in_channels = hidden_dim,
                             out_channels = oup,
                             kernel_size = 1,
                             stride = 1,
                             padding = 0,
                             groups = 1,
                             bias = False,
                             weight_bit_width = Some INTERNAL_BIT_WIDTH,
                             weight_quant = CommonIntWeightPerChannelQuant,
                             weight_scaling_per_output_channel = True,
                             weight_scaling_impl_type = STATS,
                             weight_scaling_stats_op = ''abs_max'',
                             weight_narrow_range = True,
                             weight_scaling_min_val = lit_2e_16\<rparr> of
                        Inl e \<Rightarrow> Inl e
                      | Inr pointwise \<Rightarrow>
                          Inr \<lparr>ir_stride = stride',
                               use_res_connect = self_use_res_connect,
                               ir_conv = layers @
                                 [ConvBlockL depthwise,
                                  QuantConv2dL pointwise,
                                  BatchNorm2dL \<lparr>num_features = oup, eps = None\<rparr>]\<rparr>)))))"

fun layer_forward :: "'v prims \<Rightarrow> layer \<Rightarrow> 'v \<Rightarrow> 'v" where
  "layer_forward P (ConvBlockL b) x = ConvBlock_forward P b x"
| "layer_forward P (QuantConv2dL c) x = quant_conv2d P c x"
| "layer_forward P (BatchNorm2dL n) x = batch_norm2d P n x"

text \<open>\<^verbatim>\<open>nn.Sequential\<close>: the layers applied one after the other, the first one first.\<close>

fun Sequential_forward :: "'v prims \<Rightarrow> layer list \<Rightarrow> 'v \<Rightarrow> 'v" where
  "Sequential_forward P [] x = x"
| "Sequential_forward P (l # ls) x = Sequential_forward P ls (layer_forward P l x)"

definition InvertedResidual_forward :: "'v prims \<Rightarrow> InvertedResidual \<Rightarrow> 'v \<Rightarrow> 'v" where
  "InvertedResidual_forward P self x =
     (if use_res_connect self
      then tensor_add P x (Sequential_forward P (ir_conv self) x)
      else Sequential_forward P (ir_conv self) x)"

text \<open>
  The weight-quantization arguments of a quantized convolution: the quantizer class and
  the six \<^verbatim>\<open>weight_\<close> keyword arguments.
\<close>

record weight_quant_config =
  wq_class :: quant_class
  wq_bit_width :: "int option"
  wq_scaling_per_output_channel :: bool
  wq_scaling_impl_type :: ScalingImplType
  wq_scaling_stats_op :: string
  wq_narrow_range :: bool
  wq_scaling_min_val :: rat

definition weight_quant_of :: "QuantConv2d \<Rightarrow> weight_quant_config" where
  "weight_quant_of c = \<lparr>
     wq_class = weight_quant c,
     wq_bit_width = weight_bit_width c,
     wq_scaling_per_output_channel = weight_scaling_per_output_channel c,
     wq_scaling_impl_type = weight_scaling_impl_type c,
     wq_scaling_stats_op = weight_scaling_stats_op c,
     wq_narrow_range = weight_narrow_range c,
     wq_scaling_min_val = weight_scaling_min_val c\<rparr>"

subsection \<open>MobileNetV2\<close>

text \<open>
  The class statement \<^verbatim>\<open>class MobileNetV2(nn.module)\<close> first evaluates its base
  expression, an attribute lookup on the module \<^verbatim>\<open>torch.nn\<close>. Which names that module
  binds is a fact of the library: the list \<open>nn\<close> is a parameter. Names are
  case-sensitive strings.
\<close>

definition module_getattr :: "string \<Rightarrow> string list \<Rightarrow> string \<Rightarrow> error + string" where
  "module_getattr modname names a =
     (if a \<in> set names then Inr (modname @ ''.'' @ a) else Inl (AttributeError modname a))"

datatype pyclass = PyClass string "string list"

text \<open>
  Running the cell of the class statement on the global names \<open>g\<close>: the error it
  raises, if any, and the global names afterwards. The name \<^verbatim>\<open>MobileNetV2\<close> is bound
  only when the base expression has a value.
\<close>

definition exec_class_MobileNetV2 :: "string list \<Rightarrow> (string \<rightharpoonup> pyclass)
    \<Rightarrow> error option \<times> (string \<rightharpoonup> pyclass)" where
  "exec_class_MobileNetV2 nn g =
     (case module_getattr ''torch.nn'' nn ''module'' of
        Inl e \<Rightarrow> (Some e, g)
      | Inr base \<Rightarrow> (None, g(''MobileNetV2'' \<mapsto> PyClass ''MobileNetV2'' [base])))"

text \<open>
  The body of \<^verbatim>\<open>MobileNetV2.__init__\<close>: after the initialiser of the base class it
  binds four local names and returns. The record holds the local names at the end.
\<close>

record MobileNetV2_locals =
  block :: "int \<Rightarrow> int \<Rightarrow> int \<Rightarrow> number \<Rightarrow> error + InvertedResidual"
  input_channel :: int
  last_channel :: int
  inverted_residual_setting :: "rat list list"

definition MobileNetV2_init :: "int \<Rightarrow> rat \<Rightarrow> bool \<Rightarrow> error + MobileNetV2_locals" where
  "MobileNetV2_init num_classes width_mult round_average_pool =
     Inr \<lparr>block = InvertedResidual_init,
          input_channel = 32,
          last_channel = 1280,
          inverted_residual_setting = [[], []]\<rparr>"

text \<open>
  The expression \<^verbatim>\<open>MobileNetV2(num_classes, width_mult, round_average_pool)\<close> on the
  global names \<open>g\<close>: the name is looked up, then the instance is initialised.
\<close>

definition new_MobileNetV2 :: "(string \<rightharpoonup> pyclass) \<Rightarrow> int \<Rightarrow> rat \<Rightarrow> bool
    \<Rightarrow> error + MobileNetV2_locals" where
  "new_MobileNetV2 g num_classes width_mult round_average_pool =
     (case g ''MobileNetV2'' of
        None \<Rightarrow> Inl (NameError ''MobileNetV2'')
      | Some cls \<Rightarrow> MobileNetV2_init num_classes width_mult round_average_pool)"


section \<open>Properties\<close>

subsection \<open>Construction of a ConvBlock\<close>

text \<open>
  Construction fails exactly when a bit width is unresolved or the kernel size or the
  output channel count is not positive; otherwise the block holds the three layers built
  from the arguments.
\<close>

lemma ConvBlock_init_eq:
  "ConvBlock_init ic oc k wbw abw opts =
     (if wbw = None \<or> k \<le> 0 \<or> oc \<le> 0 \<or> abw = None then Inl ConfigurationError
      else Inr \<lparr>
        conv = \<lparr>in_channels = ic, out_channels = oc, kernel_size = k,
                 stride = opt_stride opts,
                 padding = (case opt_padding opts of None \<Rightarrow> (k - 1) div 2 | Some p \<Rightarrow> p),
                 groups = opt_groups opts, bias = opt_bias opts,
                 weight_bit_width = wbw,
                 weight_quant = CommonIntWeightPerChannelQuant,
                 weight_scaling_per_output_channel = True,
                 weight_scaling_impl_type = STATS,
                 weight_scaling_stats_op = ''abs_max'',
                 weight_narrow_range = True,
                 weight_scaling_min_val = lit_2e_16\<rparr>,
        bn = \<lparr>num_features = oc, eps = Some (opt_bn_eps opts)\<rparr>,
        activation = \<lparr>bit_width = abw, max_val = 6, quant_type = QuantType_INT,
                       scaling_impl_type = PARAMETER, restrict_scaling_type = LOG_FP,
                       scaling_per_channel = opt_activation_scaling_per_channel opts,
                       per_channel_broadcastable_shape = (1, oc, 1, 1),
                       return_quant_tensor = True\<rparr>\<rparr>)"
  by (simp add: ConvBlock_init_def QuantConv2d_new_def QuantReLU_new_def Let_def)

lemma ConvBlock_init_ok:
  "0 < k \<Longrightarrow> 0 < oc \<Longrightarrow>
   ConvBlock_init ic oc k (Some wb) (Some ab) opts
     = Inr (projr (ConvBlock_init ic oc k (Some wb) (Some ab) opts))"
  by (simp add: ConvBlock_init_eq)

text \<open>
  C3: the forward evaluation of a ConvBlock applies the quantized convolution, then the
  batch normalization, then the quantized rectifier, in this order. The convolution's
  weight is quantized by the per-channel quantizer class, per output channel, at
  \<open>weight_bit_width\<close>, with narrow range and a scale from the \<open>abs_max\<close> statistic;
  the normalization is the plain one over the output channels; the rectifier has upper
  bound 6, quantizes to \<open>act_bit_width\<close>, scales per channel as the flag
  \<open>activation_scaling_per_channel\<close> says, and returns a quantized tensor (value and
  scale).
\<close>

theorem ConvBlock_forward_stages:
  assumes "ConvBlock_init ic oc k wbw abw opts = Inr self"
  shows "ConvBlock_forward P self x =
           quant_relu P (activation self)
             (batch_norm2d P (bn self) (quant_conv2d P (conv self) x)) \<and>
         weight_quant (conv self) = CommonIntWeightPerChannelQuant \<and>
         class_getattr lib (weight_quant (conv self)) ''scaling_per_output_channel''
           = Some (PyBool True) \<and>
         weight_scaling_per_output_channel (conv self) \<and>
         weight_bit_width (conv self) = wbw \<and> wbw \<noteq> None \<and>
         weight_narrow_range (conv self) \<and>
         weight_scaling_impl_type (conv self) = STATS \<and>
         weight_scaling_stats_op (conv self) = ''abs_max'' \<and>
         bn self = \<lparr>num_features = oc, eps = Some (opt_bn_eps opts)\<rparr> \<and>
         max_val (activation self) = 6 \<and>
         quant_type (activation self) = QuantType_INT \<and>
         bit_width (activation self) = abw \<and> abw \<noteq> None \<and>
         scaling_per_channel (activation self) = opt_activation_scaling_per_channel opts \<and>
         per_channel_broadcastable_shape (activation self) = (1, oc, 1, 1) \<and>
         return_quant_tensor (activation self)"
  using assms
  by (auto simp add: ConvBlock_init_eq ConvBlock_forward_def split: if_splits)

theorem ConvBlock_forward_stages_witness:
  "ConvBlock_init 3 32 3 (Some 8) (Some 8) (ConvBlock_defaults\<lparr>opt_stride := 2\<rparr>)
     = Inr (projr (ConvBlock_init 3 32 3 (Some 8) (Some 8)
         (ConvBlock_defaults\<lparr>opt_stride := 2\<rparr>))) \<and>
   ConvBlock_forward
     \<lparr>quant_conv2d = (\<lambda>c x. x * out_channels c),
      batch_norm2d = (\<lambda>n x. x - num_features n),
      quant_relu = (\<lambda>a x. min (max x 0) (max_val a)),
      tensor_add = (\<lambda>x y. x + y)\<rparr>
     (projr (ConvBlock_init 3 32 3 (Some 8) (Some 8) (ConvBlock_defaults\<lparr>opt_stride := 2\<rparr>)))
     (1::int) = 0 \<and>
   return_quant_tensor (activation
     (projr (ConvBlock_init 3 32 3 (Some 8) (Some 8) (ConvBlock_defaults\<lparr>opt_stride := 2\<rparr>))))"
proof -
  let ?r = "ConvBlock_init 3 32 3 (Some 8) (Some 8) (ConvBlock_defaults\<lparr>opt_stride := 2\<rparr>)"
  have h: "?r = Inr (projr ?r)"
    by (simp add: ConvBlock_init_eq)
  from ConvBlock_forward_stages [OF h, where lib = "\<lambda>_. []" and x = "1::int"
      and P = "\<lparr>quant_conv2d = (\<lambda>c x. x * out_channels c),
                batch_norm2d = (\<lambda>n x. x - num_features n),
                quant_relu = (\<lambda>a x. min (max x 0) (max_val a)),
                tensor_add = (\<lambda>x y. x + y)\<rparr>"] h
  show ?thesis
    by (simp add: ConvBlock_init_eq)
qed

text \<open>
  C4: each of the four named base policies binds the scale floor to the strictly
  positive constant \<^verbatim>\<open>2e-16\<close> and binds \<open>bit_width\<close> to \<^verbatim>\<open>None\<close>, whatever the
  library classes bind; and a ConvBlock given an unresolved weight or activation bit
  width fails at construction with a configuration error: no default is substituted.
\<close>

theorem base_policies_unresolved:
  assumes "c \<in> set named_policies"
  shows "class_getattr lib c ''scaling_min_val'' = Some (PyFloat lit_2e_16) \<and>
         0 < lit_2e_16 \<and>
         class_getattr lib c ''bit_width'' = Some PyNone \<and>
         ConvBlock_init ic oc k None abw opts = Inl ConfigurationError \<and>
         ConvBlock_init ic oc k wbw None opts = Inl ConfigurationError"
  using assms
  by (auto simp add: named_policies_def lit_2e_16_def ConvBlock_init_eq)

theorem base_policies_unresolved_witness:
  "CommonIntWeightPerChannelQuant \<in> set named_policies \<and>
   class_getattr (\<lambda>_. [(''bit_width'', PyInt 8)]) CommonIntWeightPerChannelQuant ''bit_width''
     = Some PyNone \<and>
   ConvBlock_init 3 32 3 None (Some 8) ConvBlock_defaults = Inl ConfigurationError"
proof -
  have h: "CommonIntWeightPerChannelQuant \<in> set named_policies"
    by (simp add: named_policies_def)
  from base_policies_unresolved [OF h, of "\<lambda>_. [(''bit_width'', PyInt 8)]" 3 32 3 "Some 8"
      ConvBlock_defaults "Some 8"] h
  show ?thesis by simp
qed

text \<open>
  With the default padding, an even kernel size and stride 1 the output is one smaller
  than the input: kernel size 2 on an input of size 5 gives padding 0 and output size 4.
\<close>

theorem default_padding_even_kernel_counterexample:
  "\<not> isl (ConvBlock_init 3 8 2 (Some 4) (Some 4) ConvBlock_defaults) \<and>
   stride (conv (projr (ConvBlock_init 3 8 2 (Some 4) (Some 4) ConvBlock_defaults))) = 1 \<and>
   padding (conv (projr (ConvBlock_init 3 8 2 (Some 4) (Some 4) ConvBlock_defaults))) = 0 \<and>
   conv_output_size (conv (projr (ConvBlock_init 3 8 2 (Some 4) (Some 4) ConvBlock_defaults))) 5
     = 4"
  by (simp add: ConvBlock_init_eq ConvBlock_defaults_def conv_output_size_def)

text \<open>
  C5 (amended): a ConvBlock constructed without a padding argument uses the padding
  \<open>(kernel_size - 1) div 2\<close>, and its output spatial size is
  \<open>(n + 2 * padding - kernel_size) div stride + 1\<close>. With stride 1 the output size
  equals the input size when the kernel size is odd, and is one less when it is even.
\<close>

theorem default_padding_output_size:
  assumes "ConvBlock_init ic oc k wbw abw opts = Inr self"
    and "opt_padding opts = None"
  shows "padding (conv self) = (k - 1) div 2 \<and>
         conv_output_size (conv self) n
           = (n + 2 * ((k - 1) div 2) - k) div opt_stride opts + 1 \<and>
         (opt_stride opts = 1 \<longrightarrow>
            conv_output_size (conv self) n = (if odd k then n else n - 1))"
proof -
  from assms have c: "padding (conv self) = (k - 1) div 2"
    "stride (conv self) = opt_stride opts" "kernel_size (conv self) = k"
    by (auto simp add: ConvBlock_init_eq split: if_splits)
  have odd: "odd k \<Longrightarrow> 2 * ((k - 1) div 2) = k - 1"
    by presburger
  have even: "even k \<Longrightarrow> 2 * ((k - 1) div 2) = k - 2"
    by presburger
  show ?thesis
    using c odd even by (simp add: conv_output_size_def)
qed

theorem default_padding_output_size_witness:
  "ConvBlock_init 16 16 3 (Some 4) (Some 4) ConvBlock_defaults
     = Inr (projr (ConvBlock_init 16 16 3 (Some 4) (Some 4) ConvBlock_defaults)) \<and>
   opt_padding ConvBlock_defaults = None \<and> opt_stride ConvBlock_defaults = 1 \<and>
   padding (conv (projr (ConvBlock_init 16 16 3 (Some 4) (Some 4) ConvBlock_defaults))) = 1 \<and>
   conv_output_size (conv (projr (ConvBlock_init 16 16 3 (Some 4) (Some 4) ConvBlock_defaults)))
     224 = 224"
proof -
  let ?r = "ConvBlock_init 16 16 3 (Some 4) (Some 4) ConvBlock_defaults"
  have h: "?r = Inr (projr ?r)"
    by (simp add: ConvBlock_init_eq)
  have p: "opt_padding ConvBlock_defaults = None"
    by (simp add: ConvBlock_defaults_def)
  have s: "opt_stride ConvBlock_defaults = 1"
    by (simp add: ConvBlock_defaults_def)
  from default_padding_output_size [OF h p, of 224] h p s
  show ?thesis by simp
qed

subsection \<open>Construction of an InvertedResidual block\<close>


lemma py_round_of_int: "py_round (of_int n) = n"
  by (simp add: py_round_def)

lemma py_round_numeral: "py_round (numeral n) = numeral n"
  using py_round_of_int [of "numeral n"] by simp

text \<open>Evaluation of the float operations on numerals.\<close>

lemma bit_length_nonpos: "n \<le> 0 \<Longrightarrow> bit_length n = 0"
  by (subst bit_length.simps) simp

lemma bit_length_pos: "0 < n \<Longrightarrow> bit_length n = 1 + bit_length (n div 2)"
  by (subst bit_length.simps) simp

lemma floor_rat_numeral_div: "\<lfloor>numeral a / numeral b :: rat\<rfloor> = numeral a div numeral b"
  using floor_divide_of_int_eq [of "numeral a" "numeral b", where ?'a = rat] by simp

lemma floor_rat_one_div: "\<lfloor>1 / numeral b :: rat\<rfloor> = 1 div numeral b"
  using floor_divide_of_int_eq [of 1 "numeral b", where ?'a = rat] by simp

lemma floor_rat_neg_numeral_div:
  "\<lfloor>- (numeral a / numeral b) :: rat\<rfloor> = - numeral a div numeral b"
  using floor_divide_of_int_eq [of "- numeral a" "numeral b", where ?'a = rat] by simp

lemma floor_rat_neg_one_div: "\<lfloor>- (1 / numeral b) :: rat\<rfloor> = - 1 div numeral b"
  using floor_divide_of_int_eq [of "- 1" "numeral b", where ?'a = rat] by simp

lemmas float_eval = bit_length_nonpos bit_length_pos ilog2_def pow2_def py_round_def
  round_to_double_def Let_def floor_rat_numeral_div floor_rat_one_div
  floor_rat_neg_numeral_div floor_rat_neg_one_div

lemma round_to_double_examples:
  "round_to_double 3 = Finite 3"
  "round_to_double (1 / 10) = Finite (3602879701896397 / 36028797018963968)"
  by (simp_all add: float_eval)

lemma int_mul_error: "int_mul i e = Inl err \<Longrightarrow> err = OverflowError"
  by (cases e) (auto split: pyfloat.splits)

lemma int_round_error: "int_round p = Inl err \<Longrightarrow> err = OverflowError \<or> err = ValueError"
  by (rule int_round.elims [of p "Inl err"]) auto

lemma InvertedResidual_init_eq:
  "InvertedResidual_init inp oup s e =
     (if s \<noteq> 1 \<and> s \<noteq> 2 then Inl AssertionError
      else case int_mul inp e of
        Inl err \<Rightarrow> Inl err
      | Inr p \<Rightarrow>
      (case int_round p of
        Inl err \<Rightarrow> Inl err
      | Inr hid \<Rightarrow>
        if hid \<le> 0 \<or> oup \<le> 0 then Inl ConfigurationError
        else Inr \<lparr>ir_stride = s, use_res_connect = (s = 1 \<and> inp = oup),
          ir_conv =
            (if ne_one e
             then [ConvBlockL (projr (ConvBlock_init inp hid 1 (Some INTERNAL_BIT_WIDTH)
                     (Some INTERNAL_BIT_WIDTH) ConvBlock_defaults))]
             else []) @
            [ConvBlockL (projr (ConvBlock_init hid hid 3 (Some INTERNAL_BIT_WIDTH)
                (Some INTERNAL_BIT_WIDTH)
                (ConvBlock_defaults\<lparr>opt_stride := s, opt_groups := hid\<rparr>))),
             QuantConv2dL \<lparr>in_channels = hid, out_channels = oup, kernel_size = 1,
                stride = 1, padding = 0, groups = 1, bias = False,
                weight_bit_width = Some INTERNAL_BIT_WIDTH,
                weight_quant = CommonIntWeightPerChannelQuant,
                weight_scaling_per_output_channel = True,
                weight_scaling_impl_type = STATS,
                weight_scaling_stats_op = ''abs_max'',
                weight_narrow_range = True,
                weight_scaling_min_val = lit_2e_16\<rparr>,
             BatchNorm2dL \<lparr>num_features = oup, eps = None\<rparr>]\<rparr>))"
  by (simp add: InvertedResidual_init_def ConvBlock_init_eq QuantConv2d_new_def Let_def
      split: sum.splits)

lemma InvertedResidual_init_Inr:
  assumes "InvertedResidual_init inp oup s e = Inr self"
  obtains p hid where
    "int_mul inp e = Inr p" and "int_round p = Inr hid"
    and "s = 1 \<or> s = 2" and "0 < hid" and "0 < oup"
    and "use_res_connect self = (s = 1 \<and> inp = oup)"
    and "ir_conv self =
          (if ne_one e
           then [ConvBlockL (projr (ConvBlock_init inp hid 1
                   (Some INTERNAL_BIT_WIDTH) (Some INTERNAL_BIT_WIDTH) ConvBlock_defaults))]
           else []) @
          [ConvBlockL (projr (ConvBlock_init hid hid 3 (Some INTERNAL_BIT_WIDTH)
              (Some INTERNAL_BIT_WIDTH)
              (ConvBlock_defaults\<lparr>opt_stride := s, opt_groups := hid\<rparr>))),
           QuantConv2dL \<lparr>in_channels = hid, out_channels = oup,
              kernel_size = 1,
              stride = 1, padding = 0, groups = 1, bias = False,
              weight_bit_width = Some INTERNAL_BIT_WIDTH,
              weight_quant = CommonIntWeightPerChannelQuant,
              weight_scaling_per_output_channel = True,
              weight_scaling_impl_type = STATS,
              weight_scaling_stats_op = ''abs_max'',
              weight_narrow_range = True,
              weight_scaling_min_val = lit_2e_16\<rparr>,
           BatchNorm2dL \<lparr>num_features = oup, eps = None\<rparr>]"
proof -
  have a: "\<not> (s \<noteq> 1 \<and> s \<noteq> 2)"
  proof
    assume "s \<noteq> 1 \<and> s \<noteq> 2"
    then have "InvertedResidual_init inp oup s e = Inl AssertionError"
      by (simp add: InvertedResidual_init_eq)
    with assms show False by simp
  qed
  obtain p where p: "int_mul inp e = Inr p"
  proof (cases "int_mul inp e")
    case (Inl err)
    with a have "InvertedResidual_init inp oup s e = Inl err"
      by (auto simp add: InvertedResidual_init_eq)
    with assms show ?thesis by simp
  next
    case (Inr p)
    then show ?thesis by (rule that)
  qed
  obtain hid where hid: "int_round p = Inr hid"
  proof (cases "int_round p")
    case (Inl err)
    with a p have "InvertedResidual_init inp oup s e = Inl err"
      by (auto simp add: InvertedResidual_init_eq)
    with assms show ?thesis by simp
  next
    case (Inr hid)
    then show ?thesis by (rule that)
  qed
  have b: "\<not> (hid \<le> 0 \<or> oup \<le> 0)"
  proof
    assume "hid \<le> 0 \<or> oup \<le> 0"
    with a p hid have "InvertedResidual_init inp oup s e = Inl ConfigurationError"
      by (auto simp add: InvertedResidual_init_eq)
    with assms show False by simp
  qed
  let ?layers = "(if ne_one e
           then [ConvBlockL (projr (ConvBlock_init inp hid 1
                   (Some INTERNAL_BIT_WIDTH) (Some INTERNAL_BIT_WIDTH) ConvBlock_defaults))]
           else []) @
          [ConvBlockL (projr (ConvBlock_init hid hid 3 (Some INTERNAL_BIT_WIDTH)
              (Some INTERNAL_BIT_WIDTH)
              (ConvBlock_defaults\<lparr>opt_stride := s, opt_groups := hid\<rparr>))),
           QuantConv2dL \<lparr>in_channels = hid, out_channels = oup,
              kernel_size = 1,
              stride = 1, padding = 0, groups = 1, bias = False,
              weight_bit_width = Some INTERNAL_BIT_WIDTH,
              weight_quant = CommonIntWeightPerChannelQuant,
              weight_scaling_per_output_channel = True,
              weight_scaling_impl_type = STATS,
              weight_scaling_stats_op = ''abs_max'',
              weight_narrow_range = True,
              weight_scaling_min_val = lit_2e_16\<rparr>,
           BatchNorm2dL \<lparr>num_features = oup, eps = None\<rparr>]"
  from a b p hid have "InvertedResidual_init inp oup s e =
      Inr \<lparr>ir_stride = s, use_res_connect = (s = 1 \<and> inp = oup), ir_conv = ?layers\<rparr>"
    unfolding InvertedResidual_init_eq by (simp only: if_False sum.case)
  with assms have self:
    "self = \<lparr>ir_stride = s, use_res_connect = (s = 1 \<and> inp = oup), ir_conv = ?layers\<rparr>"
    by simp
  have u: "use_res_connect self = (s = 1 \<and> inp = oup)"
    by (simp add: self)
  have l: "ir_conv self = ?layers"
    by (simp only: self InvertedResidual.simps)
  from a b have c: "s = 1 \<or> s = 2" "0 < hid" "0 < oup"
    by auto
  from p hid c u l show ?thesis
    by (rule that)
qed

lemma InvertedResidual_init_ok:
  "s = 1 \<or> s = 2 \<Longrightarrow> int_mul inp e = Inr p \<Longrightarrow> int_round p = Inr hid \<Longrightarrow>
   0 < hid \<Longrightarrow> 0 < oup \<Longrightarrow>
   InvertedResidual_init inp oup s e = Inr (projr (InvertedResidual_init inp oup s e))"
  by (auto simp add: InvertedResidual_init_eq)

lemma InvertedResidual_init_float_errors:
  "InvertedResidual_init 3 8 1 (FloatNum NaN) = Inl ValueError"
  "InvertedResidual_init 3 8 1 (FloatNum PosInf) = Inl OverflowError"
  by (simp_all add: InvertedResidual_init_eq float_eval)

text \<open>
  C1: in a constructed InvertedResidual block the flag \<open>use_res_connect\<close> is
  \<open>stride = 1 \<and> inp = oup\<close>; the forward evaluation returns the input plus the result
  of the layer sequence exactly when the flag holds and the result of the layer sequence
  alone otherwise; and it reads the stored flag only: changing the stored stride after
  construction changes nothing.
\<close>

theorem residual_rule:
  assumes "InvertedResidual_init inp oup s e = Inr self"
  shows "use_res_connect self = (s = 1 \<and> inp = oup) \<and>
         InvertedResidual_forward P self x
           = (if s = 1 \<and> inp = oup
              then tensor_add P x (Sequential_forward P (ir_conv self) x)
              else Sequential_forward P (ir_conv self) x) \<and>
         InvertedResidual_forward P (self\<lparr>ir_stride := s'\<rparr>) x
           = InvertedResidual_forward P self x"
proof -
  from assms have "use_res_connect self = (s = 1 \<and> inp = oup)"
    by (rule InvertedResidual_init_Inr)
  then show ?thesis
    by (simp add: InvertedResidual_forward_def)
qed

theorem residual_rule_witness:
  "InvertedResidual_init 16 16 1 (IntNum 6)
     = Inr (projr (InvertedResidual_init 16 16 1 (IntNum 6))) \<and>
   use_res_connect (projr (InvertedResidual_init 16 16 1 (IntNum 6))) \<and>
   InvertedResidual_forward
     \<lparr>quant_conv2d = (\<lambda>c x. x + kernel_size c),
      batch_norm2d = (\<lambda>n x. x),
      quant_relu = (\<lambda>a x. min (max x 0) (max_val a)),
      tensor_add = (\<lambda>x y. x + y)\<rparr>
     (projr (InvertedResidual_init 16 16 1 (IntNum 6))) (1::int) = 7 \<and>
   InvertedResidual_init 16 24 2 (IntNum 6)
     = Inr (projr (InvertedResidual_init 16 24 2 (IntNum 6))) \<and>
   \<not> use_res_connect (projr (InvertedResidual_init 16 24 2 (IntNum 6)))"
proof -
  let ?P = "\<lparr>quant_conv2d = (\<lambda>c x. x + kernel_size c),
      batch_norm2d = (\<lambda>n x. x),
      quant_relu = (\<lambda>a x. min (max x 0) (max_val a)),
      tensor_add = (\<lambda>x y. x + y)\<rparr> :: int prims"
  have h1: "InvertedResidual_init 16 16 1 (IntNum 6)
      = Inr (projr (InvertedResidual_init 16 16 1 (IntNum 6)))"
    by (rule InvertedResidual_init_ok [where p = "IntNum 96" and hid = 96]) simp_all
  have h2: "InvertedResidual_init 16 24 2 (IntNum 6)
      = Inr (projr (InvertedResidual_init 16 24 2 (IntNum 6)))"
    by (rule InvertedResidual_init_ok [where p = "IntNum 96" and hid = 96]) simp_all
  have layers:
    "Sequential_forward ?P (ir_conv (projr (InvertedResidual_init 16 16 1 (IntNum 6)))) 1 = 6"
    by (simp add: InvertedResidual_init_eq ConvBlock_init_eq ConvBlock_forward_def)
  from residual_rule [OF h1, of ?P 1] residual_rule [OF h2, of ?P 1] layers
  have "use_res_connect (projr (InvertedResidual_init 16 16 1 (IntNum 6)))"
    and "InvertedResidual_forward ?P (projr (InvertedResidual_init 16 16 1 (IntNum 6))) 1 = 7"
    and "\<not> use_res_connect (projr (InvertedResidual_init 16 24 2 (IntNum 6)))"
    by simp_all
  with h1 h2 show ?thesis
    by (intro conjI)
qed

text \<open>
  C6: construction of an InvertedResidual block raises the assertion error exactly when
  the stride is neither 1 nor 2. The error is the result of the constructor; the forward
  evaluation has no error of its own.
\<close>

theorem stride_assertion:
  "(InvertedResidual_init inp oup s e = Inl AssertionError) = (s \<noteq> 1 \<and> s \<noteq> 2)"
  by (auto simp add: InvertedResidual_init_eq split: sum.splits
      dest: int_mul_error int_round_error)

theorem stride_assertion_witness:
  "InvertedResidual_init 16 24 3 (IntNum 6) = Inl AssertionError \<and>
   InvertedResidual_init 16 24 0 (IntNum 6) = Inl AssertionError \<and>
   InvertedResidual_init 16 24 2 (IntNum 6) \<noteq> Inl AssertionError \<and>
   InvertedResidual_init 16 24 1 (IntNum 6) \<noteq> Inl AssertionError"
  using stride_assertion [of 16 24 3 "IntNum 6"] stride_assertion [of 16 24 0 "IntNum 6"]
    stride_assertion [of 16 24 2 "IntNum 6"] stride_assertion [of 16 24 1 "IntNum 6"]
  by simp

subsection \<open>The stages of an InvertedResidual block\<close>







text \<open>
  C10: the projection convolution written inline in an InvertedResidual block has the
  weight-quantization arguments of the convolution of any ConvBlock constructed at the
  internal bit width, among them every ConvBlock of the same block: the per-channel
  quantizer class, scaling per output channel, the \<open>abs_max\<close> statistic, narrow range,
  the floor \<^verbatim>\<open>2e-16\<close> and the internal bit width.
\<close>

theorem projection_weight_quant:
  assumes "InvertedResidual_init inp oup s e = Inr self"
    and "ConvBlock_init ic oc k (Some INTERNAL_BIT_WIDTH) abw opts = Inr cb"
  shows "\<exists>pre depthwise pointwise norm.
     ir_conv self = pre @ [ConvBlockL depthwise, QuantConv2dL pointwise, BatchNorm2dL norm] \<and>
     weight_quant_of pointwise = weight_quant_of (conv cb) \<and>
     weight_quant_of pointwise = weight_quant_of (conv depthwise) \<and>
     (\<forall>b. ConvBlockL b \<in> set (ir_conv self) \<longrightarrow>
        weight_quant_of (conv b) = weight_quant_of pointwise) \<and>
     weight_quant_of pointwise =
       \<lparr>wq_class = CommonIntWeightPerChannelQuant,
        wq_bit_width = Some INTERNAL_BIT_WIDTH,
        wq_scaling_per_output_channel = True,
        wq_scaling_impl_type = STATS,
        wq_scaling_stats_op = ''abs_max'',
        wq_narrow_range = True,
        wq_scaling_min_val = lit_2e_16\<rparr>"
proof -
  let ?cfg = "\<lparr>wq_class = CommonIntWeightPerChannelQuant,
        wq_bit_width = Some INTERNAL_BIT_WIDTH,
        wq_scaling_per_output_channel = True,
        wq_scaling_impl_type = STATS,
        wq_scaling_stats_op = ''abs_max'',
        wq_narrow_range = True,
        wq_scaling_min_val = lit_2e_16\<rparr>"
  from assms(1) obtain p hid where
    ok: "0 < hid" "0 < oup"
    and layers0: "ir_conv self =
          (if ne_one e
           then [ConvBlockL (projr (ConvBlock_init inp hid 1
                   (Some INTERNAL_BIT_WIDTH) (Some INTERNAL_BIT_WIDTH) ConvBlock_defaults))]
           else []) @
          [ConvBlockL (projr (ConvBlock_init hid hid 3 (Some INTERNAL_BIT_WIDTH)
              (Some INTERNAL_BIT_WIDTH)
              (ConvBlock_defaults\<lparr>opt_stride := s, opt_groups := hid\<rparr>))),
           QuantConv2dL \<lparr>in_channels = hid, out_channels = oup,
              kernel_size = 1,
              stride = 1, padding = 0, groups = 1, bias = False,
              weight_bit_width = Some INTERNAL_BIT_WIDTH,
              weight_quant = CommonIntWeightPerChannelQuant,
              weight_scaling_per_output_channel = True,
              weight_scaling_impl_type = STATS,
              weight_scaling_stats_op = ''abs_max'',
              weight_narrow_range = True,
              weight_scaling_min_val = lit_2e_16\<rparr>,
           BatchNorm2dL \<lparr>num_features = oup, eps = None\<rparr>]"
    by (rule InvertedResidual_init_Inr)
  let ?ex = "projr (ConvBlock_init inp hid 1 (Some INTERNAL_BIT_WIDTH)
                   (Some INTERNAL_BIT_WIDTH) ConvBlock_defaults)"
  let ?dw = "projr (ConvBlock_init hid hid 3 (Some INTERNAL_BIT_WIDTH)
              (Some INTERNAL_BIT_WIDTH)
              (ConvBlock_defaults\<lparr>opt_stride := s, opt_groups := hid\<rparr>))"
  let ?pw = "\<lparr>in_channels = hid, out_channels = oup,
              kernel_size = 1,
              stride = 1, padding = 0, groups = 1, bias = False,
              weight_bit_width = Some INTERNAL_BIT_WIDTH,
              weight_quant = CommonIntWeightPerChannelQuant,
              weight_scaling_per_output_channel = True,
              weight_scaling_impl_type = STATS,
              weight_scaling_stats_op = ''abs_max'',
              weight_narrow_range = True,
              weight_scaling_min_val = lit_2e_16\<rparr>"
  have layers: "ir_conv self = (if ne_one e then [ConvBlockL ?ex] else []) @
       [ConvBlockL ?dw, QuantConv2dL ?pw, BatchNorm2dL \<lparr>num_features = oup, eps = None\<rparr>]"
    using layers0 .
  have pw: "weight_quant_of ?pw = ?cfg"
    by (simp add: weight_quant_of_def)
  from assms(2) have cb: "weight_quant_of (conv cb) = ?cfg"
    by (auto simp add: ConvBlock_init_eq weight_quant_of_def split: if_splits)
  have ex: "weight_quant_of (conv ?ex) = ?cfg"
    using ok by (simp add: ConvBlock_init_eq weight_quant_of_def)
  have dw: "weight_quant_of (conv ?dw) = ?cfg"
    using ok by (simp add: ConvBlock_init_eq weight_quant_of_def)
  have all: "\<forall>b. ConvBlockL b \<in> set (ir_conv self) \<longrightarrow>
      weight_quant_of (conv b) = weight_quant_of ?pw"
  proof (intro allI impI)
    fix b
    assume "ConvBlockL b \<in> set (ir_conv self)"
    then have "b = ?ex \<or> b = ?dw"
      unfolding layers by (cases "ne_one e") simp_all
    then show "weight_quant_of (conv b) = weight_quant_of ?pw"
      using ex dw pw by auto
  qed
  show ?thesis
    apply (rule exI [of _ "if ne_one e then [ConvBlockL ?ex] else []"])
    apply (rule exI [of _ ?dw])
    apply (rule exI [of _ ?pw])
    apply (rule exI [of _ "\<lparr>num_features = oup, eps = None\<rparr>"])
    apply (intro conjI)
        apply (rule layers)
       apply (simp only: pw cb)
      apply (simp only: pw dw)
     apply (rule all)
    apply (rule pw)
    done
qed

theorem projection_weight_quant_witness:
  "InvertedResidual_init 16 24 2 (IntNum 6) = Inr (projr (InvertedResidual_init 16 24 2 (IntNum 6))) \<and>
   ConvBlock_init 24 24 3 (Some INTERNAL_BIT_WIDTH) (Some 8) ConvBlock_defaults
     = Inr (projr (ConvBlock_init 24 24 3 (Some INTERNAL_BIT_WIDTH) (Some 8)
         ConvBlock_defaults)) \<and>
   (\<exists>pre depthwise pointwise norm.
      ir_conv (projr (InvertedResidual_init 16 24 2 (IntNum 6)))
        = pre @ [ConvBlockL depthwise, QuantConv2dL pointwise, BatchNorm2dL norm] \<and>
      weight_quant_of pointwise
        = weight_quant_of (conv (projr (ConvBlock_init 24 24 3 (Some INTERNAL_BIT_WIDTH)
            (Some 8) ConvBlock_defaults))) \<and>
      wq_bit_width (weight_quant_of pointwise) = Some 4)"
proof -
  have h1: "InvertedResidual_init 16 24 2 (IntNum 6) = Inr (projr (InvertedResidual_init 16 24 2 (IntNum 6)))"
    by (rule InvertedResidual_init_ok [where p = "IntNum 96" and hid = 96]) simp_all
  have h2: "ConvBlock_init 24 24 3 (Some INTERNAL_BIT_WIDTH) (Some 8) ConvBlock_defaults
     = Inr (projr (ConvBlock_init 24 24 3 (Some INTERNAL_BIT_WIDTH) (Some 8)
         ConvBlock_defaults))"
    by (rule ConvBlock_init_ok) simp_all
  from projection_weight_quant [OF h1 h2] obtain pre depthwise pointwise norm where
    a: "ir_conv (projr (InvertedResidual_init 16 24 2 (IntNum 6)))
        = pre @ [ConvBlockL depthwise, QuantConv2dL pointwise, BatchNorm2dL norm]"
    and b: "weight_quant_of pointwise
        = weight_quant_of (conv (projr (ConvBlock_init 24 24 3 (Some INTERNAL_BIT_WIDTH)
            (Some 8) ConvBlock_defaults)))"
    and c: "weight_quant_of pointwise =
       \<lparr>wq_class = CommonIntWeightPerChannelQuant,
        wq_bit_width = Some INTERNAL_BIT_WIDTH,
        wq_scaling_per_output_channel = True,
        wq_scaling_impl_type = STATS,
        wq_scaling_stats_op = ''abs_max'',
        wq_narrow_range = True,
        wq_scaling_min_val = lit_2e_16\<rparr>"
    by (elim exE conjE)
  from c have d: "wq_bit_width (weight_quant_of pointwise) = Some 4"
    by (simp add: INTERNAL_BIT_WIDTH_def)
  have "\<exists>pre depthwise pointwise norm.
      ir_conv (projr (InvertedResidual_init 16 24 2 (IntNum 6)))
        = pre @ [ConvBlockL depthwise, QuantConv2dL pointwise, BatchNorm2dL norm] \<and>
      weight_quant_of pointwise
        = weight_quant_of (conv (projr (ConvBlock_init 24 24 3 (Some INTERNAL_BIT_WIDTH)
            (Some 8) ConvBlock_defaults))) \<and>
      wq_bit_width (weight_quant_of pointwise) = Some 4"
    using a b d by (intro exI conjI)
  with h1 h2 show ?thesis
    by (intro conjI)
qed


subsection \<open>The MobileNetV2 class\<close>

text \<open>
  C9: when the module \<^verbatim>\<open>torch.nn\<close> binds no name \<^verbatim>\<open>module\<close> (it binds
  \<^verbatim>\<open>Module\<close>, and names are case-sensitive) and the name \<^verbatim>\<open>MobileNetV2\<close> is not
  bound already, the class statement raises an attribute error and binds nothing; the
  construction of a network then raises a name error, for every argument tuple
  (num_classes, width_mult, round_average_pool).
\<close>

theorem class_statement_fails:
  assumes "''module'' \<notin> set nn" and "g ''MobileNetV2'' = None"
  shows "exec_class_MobileNetV2 nn g = (Some (AttributeError ''torch.nn'' ''module''), g) \<and>
         new_MobileNetV2 (snd (exec_class_MobileNetV2 nn g)) num_classes width_mult
           round_average_pool = Inl (NameError ''MobileNetV2'')"
  using assms
  by (simp add: exec_class_MobileNetV2_def module_getattr_def new_MobileNetV2_def)

theorem class_statement_fails_witness:
  "''module'' \<notin> set [''Module'', ''BatchNorm2d'', ''Sequential''] \<and>
   ''Module'' \<in> set [''Module'', ''BatchNorm2d'', ''Sequential''] \<and>
   (Map.empty :: string \<rightharpoonup> pyclass) ''MobileNetV2'' = None \<and>
   exec_class_MobileNetV2 [''Module'', ''BatchNorm2d'', ''Sequential''] Map.empty
     = (Some (AttributeError ''torch.nn'' ''module''), Map.empty) \<and>
   new_MobileNetV2
     (snd (exec_class_MobileNetV2 [''Module'', ''BatchNorm2d'', ''Sequential''] Map.empty))
     10 1 True = Inl (NameError ''MobileNetV2'')"
proof -
  have h: "''module'' \<notin> set [''Module'', ''BatchNorm2d'', ''Sequential'']"
    by simp
  have e: "(Map.empty :: string \<rightharpoonup> pyclass) ''MobileNetV2'' = None"
    by simp
  from class_statement_fails [OF h e, of 10 1 True] h
  show ?thesis by auto
qed




end
